theory Spec2Isabelle
  imports Complex_Main "HOL-Library.Product_Lexorder" "HOL-Library.AList" "HOL-Library.Log_Nat"
begin

section \<open>Data model (src/models/ai.py)\<close>

text \<open>
  A Python \<open>str\<close> is modelled as a \<open>string\<close>; one list element stands for one
  character of the Python string, so \<open>length\<close> is Python's \<open>len\<close>.
  A Python \<open>float\<close> is an IEEE double: it is modelled as the \<open>real\<close> number it
  denotes, and an addition or subtraction of floats in the source rounds the exact result
  to the nearest double (\<open>fadd\<close>, \<open>fsub\<close> below). A Python \<open>int\<close> is an \<open>int\<close>.
  A \<open>dict\<close> is an association list in insertion order.
\<close>

datatype TaskComplexity = SIMPLE | MEDIUM | COMPLEX | CRITICAL

datatype ModelType = LOCAL | FREE_API | PREMIUM_API

record Model =
  name :: string
  type :: ModelType
  size_gb :: "real option"
  context_window :: int
  capabilities :: "string list"
  cost_per_1k_tokens :: real
  speed_score :: int
  quality_score :: int

definition is_local :: "Model \<Rightarrow> bool" where
  "is_local m = (type m = LOCAL)"

definition is_free :: "Model \<Rightarrow> bool" where
  "is_free m = (cost_per_1k_tokens m = 0)"

text \<open>
  The \<open>context\<close> of a task (field \<open>task_context\<close>) is a dictionary whose values
  are only ever formatted into the prompt, so they are kept as already formatted strings.
\<close>

record Task =
  content :: string
  complexity :: TaskComplexity
  task_context :: "(string \<times> string) list"
  requires_code_gen :: bool
  requires_web_access :: bool
  max_tokens :: "int option"

text \<open>The fields \<open>type\<close> of an action and \<open>content\<close> of a response carry a prefix,
  since \<open>Model\<close> and \<open>Task\<close> own these names.\<close>

record Action =
  action_type :: string
  target :: string
  params :: string

record AIResponse =
  response_content :: string
  actions :: "Action list"
  reasoning :: string
  model_used :: string
  confidence :: real
  fallback_used :: bool
  tokens_used :: int
  cost :: real
  processing_time :: real

definition success :: "AIResponse \<Rightarrow> bool" where
  "success r = (confidence r > 0.7)"

text \<open>
  Floating-point arithmetic. Every finite double is an integer multiple of
  \<open>2 ^ -1074\<close>, and the doubles of magnitude at least \<open>2 ^ -1022\<close> carry 53
  significant bits. \<open>round_double\<close> rounds a real to the nearest double, a tie going
  to the double whose last bit is 0: it counts the bits of the magnitude in units of
  \<open>2 ^ -1074\<close>, drops the bits beyond the 53rd and rounds them half to even. The sum
  and the difference of two Python floats are the rounded exact results. Overflow to an
  infinity (magnitudes from \<open>2 ^ 1024\<close> on), infinities and NaN are not modelled.
\<close>

definition round_half_even :: "real \<Rightarrow> int" where
  "round_half_even y =
     (let f = \<lfloor>y\<rfloor>; r = y - of_int f
      in if r < 1 / 2 then f else if r > 1 / 2 then f + 1 else if even f then f else f + 1)"

definition subnormal_bits :: nat where
  "subnormal_bits = 1074"

definition round_double :: "real \<Rightarrow> real" where
  "round_double x =
     (let n = \<bar>x\<bar> * 2 ^ subnormal_bits;
          shift = nat (bitlen \<lfloor>n\<rfloor> - 53)
      in sgn x * (of_int (round_half_even (n / 2 ^ shift)) * 2 ^ shift / 2 ^ subnormal_bits))"

definition fadd :: "real \<Rightarrow> real \<Rightarrow> real" where
  "fadd x y = round_double (x + y)"

definition fsub :: "real \<Rightarrow> real \<Rightarrow> real" where
  "fsub x y = round_double (x - y)"

record CostTracking =
  month :: string
  total_cost :: real
  cost_by_model :: "(string \<times> real) list"
  tokens_by_model :: "(string \<times> int) list"
  budget_limit :: real

definition remaining_budget :: "CostTracking \<Rightarrow> real" where
  "remaining_budget ct = max 0 (fsub (budget_limit ct) (total_cost ct))"

text \<open>Every exception the modelled code raises is a value.\<close>

datatype error =
    ValueError string
  | KeyError string
  | TypeError string
  | IndexError
  | JSONDecodeError
  | NotImplementedError string
  | Exception string

section \<open>The router (src/ai/reasoning_engine.py, CostOptimizedRouter)\<close>

record CostOptimizedRouter =
  monthly_limit :: real
  current_month :: string
  cost_tracking :: CostTracking

text \<open>
  \<open>list.sort(key=..., reverse=True)\<close> is stable: elements with equal keys keep their
  order. A stable ascending sort of the reversed list, reversed again, does exactly that.
  Tuples compare lexicographically.
\<close>

definition sort_reverse :: "('a \<Rightarrow> 'k::linorder) \<Rightarrow> 'a list \<Rightarrow> 'a list" where
  "sort_reverse key xs = rev (sort_key key (rev xs))"

definition select_best_model :: "Model list \<Rightarrow> Task \<Rightarrow> error + Model" where
  "select_best_model models task =
     (if models = [] then Inl (ValueError ''No models available'')
      else
        let code_models = filter (\<lambda>m. ''code'' \<in> set (capabilities m)) models;
            models' = (if requires_code_gen task \<and> code_models \<noteq> [] then code_models
                       else models)
        in (case sort_reverse (\<lambda>m. (quality_score m, speed_score m)) models' of
              [] \<Rightarrow> Inl IndexError
            | m # _ \<Rightarrow> Inr m))"

definition local_models_of :: "Model list \<Rightarrow> Model list" where
  "local_models_of available_models = filter (\<lambda>m. type m = LOCAL) available_models"

definition free_api_models_of :: "Model list \<Rightarrow> Model list" where
  "free_api_models_of available_models =
     filter (\<lambda>m. type m = FREE_API \<and> is_free m) available_models"

definition premium_models_of :: "Model list \<Rightarrow> Model list" where
  "premium_models_of available_models = filter (\<lambda>m. type m = PREMIUM_API) available_models"

definition route_task :: "CostOptimizedRouter \<Rightarrow> Task \<Rightarrow> Model list \<Rightarrow> error + Model" where
  "route_task self task available_models =
     (let remaining = remaining_budget (cost_tracking self);
          local_models = local_models_of available_models;
          free_api_models = free_api_models_of available_models;
          premium_models = premium_models_of available_models
      in
        if remaining \<le> 0 then
          (if complexity task \<in> {SIMPLE, MEDIUM}
           then select_best_model (local_models @ free_api_models) task
           else select_best_model local_models task)
        else if complexity task = SIMPLE then
          (if local_models \<noteq> [] then select_best_model local_models task
           else if free_api_models \<noteq> [] then select_best_model free_api_models task
           else Inl (ValueError ''No models available for simple tasks''))
        else if complexity task = MEDIUM then
          (let candidates = free_api_models @ filter (\<lambda>m. quality_score m \<ge> 7) local_models
           in if candidates \<noteq> [] then select_best_model candidates task
              else if remaining > 2.0 \<and> premium_models \<noteq> []
                then select_best_model premium_models task
              else if local_models \<noteq> [] then select_best_model local_models task
              else Inl (ValueError ''No models available for medium complexity tasks''))
        else if complexity task = COMPLEX then
          (if remaining > 5.0 \<and> premium_models \<noteq> []
             then select_best_model premium_models task
           else if local_models \<noteq> [] then select_best_model local_models task
           else if free_api_models \<noteq> [] then select_best_model free_api_models task
           else Inl (ValueError ''No models available for complex tasks''))
        else
          (if remaining > 1.0 \<and> premium_models \<noteq> []
             then select_best_model premium_models task
           else if local_models \<noteq> [] then select_best_model local_models task
           else if free_api_models \<noteq> [] then select_best_model free_api_models task
           else Inl (ValueError ''No models available for critical tasks'')))"

section \<open>The classifier (ReasoningEngine._analyze_complexity)\<close>

definition analyze_complexity :: "Task \<Rightarrow> TaskComplexity" where
  "analyze_complexity task =
     (let content_length = length (content task)
      in if content_length < 100 \<and> \<not> requires_code_gen task then SIMPLE
         else if content_length < 500 \<or> requires_code_gen task then MEDIUM
         else if content_length < 2000 then COMPLEX
         else CRITICAL)"

section \<open>The ledger and its file (CostOptimizedRouter, continued)\<close>

text \<open>
  What \<open>json.load\<close> returns and \<open>json.dump\<close> takes. An object is a Python
  \<open>dict\<close>: an association list in insertion order, looked up by key.
\<close>

datatype json =
    JNull
  | JBool bool
  | JInt int
  | JFloat real
  | JString string
  | JArray "json list"
  | JObject "(string \<times> json) list"

datatype file_state = Missing | Unparsable | Holds json

record http_response =
  status :: int
  json_response :: "error + string"
  body_text :: string

datatype http_outcome = TimeoutError | Raised error | Response http_response

text \<open>
  Everything outside the router and the engine that their code reads or writes:
  the wall clock (\<open>datetime.now().strftime('%Y-%m')\<close> and the elapsed time of a call),
  the file \<open>~/.nova/cost_tracking.json\<close>, \<open>os.environ\<close>, the Ollama server behind
  \<open>session.post\<close> (\<open>json_response\<close> is the field \<open>response\<close> of the body, or the
  exception that reading it raises), the self-analysis engine (\<open>None\<close> when
  \<open>analyze_interaction\<close> returns, the exception when it raises) and the regular
  expression search of \<open>_extract_actions_and_reasoning\<close>, which never raises.
  Failures of the file system itself are not modelled.
\<close>

record world =
  now_month :: string
  tracking_file :: file_state
  environ :: "string \<Rightarrow> string option"
  ollama_post :: "string \<Rightarrow> string \<Rightarrow> string \<Rightarrow> int \<Rightarrow> http_outcome"
  analyze_interaction :: "string \<Rightarrow> string \<Rightarrow> string \<Rightarrow> real \<Rightarrow> bool \<Rightarrow> error option"
  extract_actions_and_reasoning :: "string \<Rightarrow> Action list \<times> string"
  elapsed :: real

definition fresh_tracking :: "string \<Rightarrow> real \<Rightarrow> CostTracking" where
  "fresh_tracking cur limit =
     \<lparr>month = cur, total_cost = 0, cost_by_model = [], tokens_by_model = [],
      budget_limit = limit\<rparr>"

text \<open>
  \<open>CostTracking(**data)\<close>: every key of the dictionary must be a field, every field
  without a default must be present, and \<open>budget_limit\<close> defaults to 10.0. Python does
  not check the values; a value of the wrong shape would give an object outside this
  typed model, and is reported as a \<open>TypeError\<close> here.
\<close>

definition as_number :: "json \<Rightarrow> real option" where
  "as_number j = (case j of JInt i \<Rightarrow> Some (of_int i) | JFloat r \<Rightarrow> Some r | _ \<Rightarrow> None)"

definition as_int :: "json \<Rightarrow> int option" where
  "as_int j = (case j of JInt i \<Rightarrow> Some i | _ \<Rightarrow> None)"

definition as_string :: "json \<Rightarrow> string option" where
  "as_string j = (case j of JString s \<Rightarrow> Some s | _ \<Rightarrow> None)"

fun as_dict :: "(json \<Rightarrow> 'v option) \<Rightarrow> (string \<times> json) list \<Rightarrow> (string \<times> 'v) list option" where
  "as_dict f [] = Some []"
| "as_dict f ((k, j) # kvs) =
     (case f j of None \<Rightarrow> None
      | Some v \<Rightarrow> (case as_dict f kvs of None \<Rightarrow> None | Some r \<Rightarrow> Some ((k, v) # r)))"

definition as_object :: "(json \<Rightarrow> 'v option) \<Rightarrow> json \<Rightarrow> (string \<times> 'v) list option" where
  "as_object f j = (case j of JObject kvs \<Rightarrow> as_dict f kvs | _ \<Rightarrow> None)"

definition CostTracking_fields :: "string list" where
  "CostTracking_fields =
     [''month'', ''total_cost'', ''cost_by_model'', ''tokens_by_model'', ''budget_limit'']"

definition CostTracking_kwargs :: "(string \<times> json) list \<Rightarrow> error + CostTracking" where
  "CostTracking_kwargs data =
     (if \<not> list_all (\<lambda>(k, _). k \<in> set CostTracking_fields) data
        then Inl (TypeError ''unexpected keyword argument'')
      else
        (case (map_of data ''month'', map_of data ''total_cost'',
               map_of data ''cost_by_model'', map_of data ''tokens_by_model'') of
           (Some m, Some t, Some c, Some k) \<Rightarrow>
             (case (as_string m, as_number t, as_object as_number c, as_object as_int k,
                    (case map_of data ''budget_limit'' of
                       None \<Rightarrow> Some 10.0 | Some b \<Rightarrow> as_number b)) of
                (Some m', Some t', Some c', Some k', Some b') \<Rightarrow>
                  Inr \<lparr>month = m', total_cost = t', cost_by_model = c',
                       tokens_by_model = k', budget_limit = b'\<rparr>
              | _ \<Rightarrow> Inl (TypeError ''field of the wrong shape''))
         | _ \<Rightarrow> Inl (TypeError ''missing required argument'')))"

definition load_cost_tracking :: "string \<Rightarrow> real \<Rightarrow> world \<Rightarrow> error + CostTracking" where
  "load_cost_tracking cur limit w =
     (case tracking_file w of
        Missing \<Rightarrow> Inr (fresh_tracking cur limit)
      | Unparsable \<Rightarrow> Inl JSONDecodeError
      | Holds data \<Rightarrow>
          (case data of
             JObject kvs \<Rightarrow>
               (case map_of kvs ''month'' of
                  None \<Rightarrow> Inl (KeyError ''month'')
                | Some m \<Rightarrow>
                    if m = JString cur then CostTracking_kwargs kvs
                    else Inr (fresh_tracking cur limit))
           | _ \<Rightarrow> Inl (TypeError ''indices must be integers'')))"

text \<open>\<open>CostOptimizedRouter.__init__\<close>: the only place that reads the clock and the file.\<close>

definition router_init :: "real \<Rightarrow> world \<Rightarrow> error + CostOptimizedRouter" where
  "router_init limit w =
     (let cur = now_month w
      in case load_cost_tracking cur limit w of
           Inl e \<Rightarrow> Inl e
         | Inr ct \<Rightarrow> Inr \<lparr>monthly_limit = limit, current_month = cur, cost_tracking = ct\<rparr>)"

definition dump_cost_tracking :: "CostTracking \<Rightarrow> json" where
  "dump_cost_tracking ct =
     JObject [(''month'', JString (month ct)),
              (''total_cost'', JFloat (total_cost ct)),
              (''cost_by_model'', JObject (map (\<lambda>(k, v). (k, JFloat v)) (cost_by_model ct))),
              (''tokens_by_model'', JObject (map (\<lambda>(k, v). (k, JInt v)) (tokens_by_model ct))),
              (''budget_limit'', JFloat (budget_limit ct))]"

definition save_cost_tracking :: "CostOptimizedRouter \<Rightarrow> world \<Rightarrow> world" where
  "save_cost_tracking self w = w\<lparr>tracking_file := Holds (dump_cost_tracking (cost_tracking self))\<rparr>"

text \<open>
  \<open>track_usage\<close> mutates the period field by field, so an exception leaves the fields
  written before it; the result carries the exception (if any), the router and the world.
  The two \<open>+= cost\<close> are additions of floats; the token counts are integers.
\<close>

definition track_usage ::
  "CostOptimizedRouter \<Rightarrow> Model \<Rightarrow> int \<Rightarrow> real \<Rightarrow> world
     \<Rightarrow> error option \<times> CostOptimizedRouter \<times> world" where
  "track_usage self model tokens c w =
     (let ct0 = cost_tracking self;
          ct1 = ct0\<lparr>total_cost := fadd (total_cost ct0) c\<rparr>;
          ct2 = (if map_of (cost_by_model ct1) (name model) = None
                 then ct1\<lparr>cost_by_model := AList.update (name model) 0 (cost_by_model ct1),
                          tokens_by_model := AList.update (name model) 0 (tokens_by_model ct1)\<rparr>
                 else ct1)
      in case map_of (cost_by_model ct2) (name model) of
           None \<Rightarrow> (Some (KeyError (name model)), self\<lparr>cost_tracking := ct2\<rparr>, w)
         | Some spent \<Rightarrow>
             (let ct3 = ct2\<lparr>cost_by_model :=
                              AList.update (name model) (fadd spent c) (cost_by_model ct2)\<rparr>
              in case map_of (tokens_by_model ct3) (name model) of
                   None \<Rightarrow> (Some (KeyError (name model)), self\<lparr>cost_tracking := ct3\<rparr>, w)
                 | Some used \<Rightarrow>
                     (let ct4 = ct3\<lparr>tokens_by_model :=
                                      AList.update (name model) (used + tokens)
                                        (tokens_by_model ct3)\<rparr>;
                          self' = self\<lparr>cost_tracking := ct4\<rparr>
                      in (None, self', save_cost_tracking self' w))))"

text \<open>A sequence of \<open>track_usage\<close> calls; it stops at the first exception.\<close>

fun track_all ::
  "CostOptimizedRouter \<Rightarrow> world \<Rightarrow> (Model \<times> int \<times> real) list
     \<Rightarrow> error option \<times> CostOptimizedRouter \<times> world" where
  "track_all self w [] = (None, self, w)"
| "track_all self w ((model, tokens, c) # calls) =
     (case track_usage self model tokens c w of
        (Some e, self', w') \<Rightarrow> (Some e, self', w')
      | (None, self', w') \<Rightarrow> track_all self' w' calls)"

section \<open>The engine (ReasoningEngine)\<close>

record ReasoningEngine =
  router :: CostOptimizedRouter
  active_model :: "Model option"
  available_models :: "Model list"
  tokenizer :: "(string \<Rightarrow> int list) option"
  ollama_base_url :: string

definition nl :: string where
  "nl = [CHR 0x0A]"

fun join :: "string \<Rightarrow> string list \<Rightarrow> string" where
  "join sep [] = []"
| "join sep [x] = x"
| "join sep (x # y # xs) = x @ sep @ join sep (y # xs)"

fun str_nat :: "nat \<Rightarrow> string" where
  "str_nat n =
     (if n < 10 then [char_of (48 + n)] else str_nat (n div 10) @ [char_of (48 + n mod 10)])"

declare str_nat.simps [simp del]

definition str_int :: "int \<Rightarrow> string" where
  "str_int i = (if i < 0 then CHR ''-'' # str_nat (nat (- i)) else str_nat (nat i))"

text \<open>\<open>str.upper\<close>, on the ASCII letters.\<close>

definition upper :: "string \<Rightarrow> string" where
  "upper s =
     map (\<lambda>c. let n = (of_char c :: nat) in if 97 \<le> n \<and> n \<le> 122 then char_of (n - 32) else c) s"

definition system_prompt :: string where
  "system_prompt =
     ''You are NOVA, a helpful AI assistant. '' @ nl @
     ''Provide clear, friendly, and helpful responses.'' @ nl @
     ''When someone greets you, respond naturally and warmly.'' @ nl @
     ''For technical tasks, be precise and accurate.''"

definition build_prompt :: "Task \<Rightarrow> string" where
  "build_prompt task =
     (let ctx = task_context task;
          item = (\<lambda>key label. case map_of ctx key of
                                 None \<Rightarrow> [] | Some v \<Rightarrow> [label @ v]);
          context_items =
            (if ctx = [] then []
             else item ''system_info'' ''System: ''
                  @ item ''current_directory'' ''Current directory: ''
                  @ item ''recent_files'' ''Recent files: '');
          context_str =
            (if context_items = [] then []
             else nl @ nl @ ''Context:'' @ nl @ join nl context_items)
      in system_prompt @ context_str @ nl @ nl @ ''User: '' @ content task
         @ nl @ nl @ ''NOVA:'')"

definition count_tokens :: "ReasoningEngine \<Rightarrow> string \<Rightarrow> int" where
  "count_tokens self txt =
     (case tokenizer self of
        Some encode \<Rightarrow> int (length (encode txt))
      | None \<Rightarrow> int (length txt) div 4)"

definition process_with_ollama ::
  "world \<Rightarrow> ReasoningEngine \<Rightarrow> Task \<Rightarrow> Model \<Rightarrow> error + AIResponse" where
  "process_with_ollama w self task model =
     (let prompt = build_prompt task;
          tokens = count_tokens self prompt;
          limit = (case max_tokens task of
                     None \<Rightarrow> 2000 | Some n \<Rightarrow> if n = 0 then 2000 else n)
      in case ollama_post w (ollama_base_url self @ ''/api/generate'') (name model) prompt limit of
           TimeoutError \<Rightarrow> Inl (Exception ''Ollama request timed out'')
         | Raised e \<Rightarrow> Inl e
         | Response r \<Rightarrow>
             if status r = 200 then
               (case json_response r of
                  Inl e \<Rightarrow> Inl e
                | Inr body \<Rightarrow>
                    (case extract_actions_and_reasoning w body of
                       (acts, why) \<Rightarrow>
                         Inr \<lparr>response_content = body, actions = acts, reasoning = why,
                              model_used = name model, confidence = 0.9,
                              fallback_used = False, tokens_used = tokens, cost = 0,
                              processing_time = 0\<rparr>))
             else if status r = 404 then
               Inl (Exception (''Model '' @ name model @ '' not installed. Run: ollama pull ''
                               @ name model))
             else
               Inl (Exception (''Ollama returned status '' @ str_int (status r) @ '': ''
                               @ body_text r)))"

definition process_with_free_api ::
  "world \<Rightarrow> ReasoningEngine \<Rightarrow> Task \<Rightarrow> Model \<Rightarrow> error + AIResponse" where
  "process_with_free_api w self task model =
     Inl (NotImplementedError ''Free API integration pending'')"

definition process_with_premium_api ::
  "world \<Rightarrow> ReasoningEngine \<Rightarrow> Task \<Rightarrow> Model \<Rightarrow> error + AIResponse" where
  "process_with_premium_api w self task model =
     (case environ w (upper (name model) @ ''_API_KEY'') of
        None \<Rightarrow> Inl (Exception (''No API key found for '' @ name model))
      | Some api_key \<Rightarrow>
          if api_key = [] then Inl (Exception (''No API key found for '' @ name model))
          else Inl (NotImplementedError ''Premium API integration pending''))"

definition process_with_model ::
  "world \<Rightarrow> ReasoningEngine \<Rightarrow> Task \<Rightarrow> Model \<Rightarrow> error + AIResponse" where
  "process_with_model w self task model =
     (if type model = LOCAL then process_with_ollama w self task model
      else if type model = FREE_API then process_with_free_api w self task model
      else process_with_premium_api w self task model)"

definition get_fallback_model :: "ReasoningEngine \<Rightarrow> Model \<Rightarrow> Model option" where
  "get_fallback_model self failed_model =
     (let any_other = find (\<lambda>m. m \<noteq> failed_model) (available_models self)
      in if type failed_model = LOCAL then
           (case filter (\<lambda>m. type m \<in> {FREE_API, PREMIUM_API}) (available_models self) of
              m # _ \<Rightarrow> Some m
            | [] \<Rightarrow> any_other)
         else if type failed_model \<in> {FREE_API, PREMIUM_API} then
           (case filter (\<lambda>m. type m = LOCAL) (available_models self) of
              m # _ \<Rightarrow> Some m
            | [] \<Rightarrow> any_other)
         else any_other)"

definition error_response :: "real \<Rightarrow> AIResponse" where
  "error_response t =
     \<lparr>response_content = ''I encountered an error processing your request. Please try again.'',
      actions = [], reasoning = ''All models failed to process the request'',
      model_used = ''none'', confidence = 0, fallback_used = True, tokens_used = 0,
      cost = 0, processing_time = t\<rparr>"

text \<open>The body of the first \<open>try\<close> of \<open>process_task\<close>: the primary model, then the
  self-analysis; an exception of either leaves the block.\<close>

definition primary_attempt ::
  "world \<Rightarrow> ReasoningEngine \<Rightarrow> Task \<Rightarrow> Model \<Rightarrow> error + AIResponse" where
  "primary_attempt w self task selected_model =
     (case process_with_model w self task selected_model of
        Inl e \<Rightarrow> Inl e
      | Inr response \<Rightarrow>
          (let response' = response\<lparr>processing_time := elapsed w\<rparr>
           in case analyze_interaction w (content task) (response_content response')
                     (name selected_model) (elapsed w) True of
                Some e \<Rightarrow> Inl e
              | None \<Rightarrow> Inr response'))"

text \<open>
  \<open>process_task\<close>. A \<open>Task\<close> always has its field \<open>complexity\<close>, so the
  \<open>hasattr\<close> test never calls the classifier. The call of \<open>route_task\<close> stands before
  the \<open>try\<close>: its exception leaves \<open>process_task\<close>. The result carries the engine and
  the world as the call leaves them; the source assigns to neither.
\<close>

definition process_task ::
  "world \<Rightarrow> ReasoningEngine \<Rightarrow> Task \<Rightarrow> (error + AIResponse) \<times> ReasoningEngine \<times> world" where
  "process_task w self task =
     (case route_task (router self) task (available_models self) of
        Inl e \<Rightarrow> (Inl e, self, w)
      | Inr selected_model \<Rightarrow>
          (case primary_attempt w self task selected_model of
             Inr response \<Rightarrow> (Inr response, self, w)
           | Inl e \<Rightarrow>
               (case get_fallback_model self selected_model of
                  None \<Rightarrow> (Inr (error_response (elapsed w)), self, w)
                | Some fallback_model \<Rightarrow>
                    (case process_with_model w self task fallback_model of
                       Inr response \<Rightarrow>
                         (Inr (response\<lparr>fallback_used := True, processing_time := elapsed w\<rparr>),
                          self, w)
                     | Inl e2 \<Rightarrow> (Inr (error_response (elapsed w)), self, w)))))"

section \<open>Auxiliary notions and running examples\<close>

text \<open>
  An invariant of the ledger that the proofs carry along, the costs recorded for one
  model in a sequence of calls, and the concrete models, tasks, routers and worlds on
  which the properties below are evaluated. The models \<open>llama-7b\<close> and \<open>gpt-x\<close> are
  those of the example scenario of the specification. The six named doubles are the
  values of the Python literals in their names (\<open>float.as_integer_ratio\<close> gives the
  same fractions).
\<close>

definition same_keys :: "CostTracking \<Rightarrow> bool" where
  "same_keys ct = (\<forall>k. map_of (cost_by_model ct) k = None \<longleftrightarrow> map_of (tokens_by_model ct) k = None)"

definition model_costs :: "string \<Rightarrow> (Model \<times> int \<times> real) list \<Rightarrow> real list" where
  "model_costs k calls = map (\<lambda>(m, t, c). c) (filter (\<lambda>(m, t, c). name m = k) calls)"

definition double_0_1 :: real where
  "double_0_1 = 3602879701896397 / 2 ^ 55"

definition double_0_2 :: real where
  "double_0_2 = 3602879701896397 / 2 ^ 54"

definition double_0_3 :: real where
  "double_0_3 = 5404319552844595 / 2 ^ 54"

definition double_0_30000000000000004 :: real where
  "double_0_30000000000000004 = 5404319552844596 / 2 ^ 54"

definition double_0_6 :: real where
  "double_0_6 = 5404319552844595 / 2 ^ 53"

definition double_0_6000000000000001 :: real where
  "double_0_6000000000000001 = 5404319552844596 / 2 ^ 53"

definition llama_7b :: Model where
  "llama_7b = \<lparr>name = ''llama-7b'', type = LOCAL, size_gb = Some 4, context_window = 4096,
     capabilities = [''general'', ''code''], cost_per_1k_tokens = 0, speed_score = 8,
     quality_score = 7\<rparr>"

definition gpt_x :: Model where
  "gpt_x = \<lparr>name = ''gpt-x'', type = PREMIUM_API, size_gb = None, context_window = 8192,
     capabilities = [''general'', ''reasoning''], cost_per_1k_tokens = 0.01, speed_score = 7,
     quality_score = 10\<rparr>"

definition gpt_y :: Model where
  "gpt_y = \<lparr>name = ''gpt-y'', type = PREMIUM_API, size_gb = None, context_window = 8192,
     capabilities = [''general'', ''code''], cost_per_1k_tokens = 0.02, speed_score = 6,
     quality_score = 9\<rparr>"

definition groq_free :: Model where
  "groq_free = \<lparr>name = ''groq-llama'', type = FREE_API, size_gb = None, context_window = 8192,
     capabilities = [''general'', ''fast''], cost_per_1k_tokens = 0, speed_score = 9,
     quality_score = 6\<rparr>"

definition example_task :: "TaskComplexity \<Rightarrow> Task" where
  "example_task c = \<lparr>content = ''Summarise the design'', complexity = c, task_context = [],
     requires_code_gen = False, requires_web_access = False, max_tokens = None\<rparr>"

definition router_with :: "string \<Rightarrow> real \<Rightarrow> CostOptimizedRouter" where
  "router_with m spent = \<lparr>monthly_limit = 10, current_month = m,
     cost_tracking = \<lparr>month = m, total_cost = spent, cost_by_model = [(''gpt-x'', spent)],
       tokens_by_model = [(''gpt-x'', 1000)], budget_limit = 10\<rparr>\<rparr>"

definition fresh_router :: "string \<Rightarrow> CostOptimizedRouter" where
  "fresh_router m = \<lparr>monthly_limit = 10, current_month = m, cost_tracking = fresh_tracking m 10\<rparr>"

definition example_world :: "string \<Rightarrow> http_outcome \<Rightarrow> world" where
  "example_world m reply = \<lparr>now_month = m, tracking_file = Missing, environ = (\<lambda>_. None),
     ollama_post = (\<lambda>url model prompt limit. reply),
     analyze_interaction = (\<lambda>request response model t ok. None),
     extract_actions_and_reasoning = (\<lambda>body. ([], [])), elapsed = 1\<rparr>"

definition reply_ok :: http_outcome where
  "reply_ok = Response \<lparr>status = 200, json_response = Inr ''Done.'', body_text = []\<rparr>"

definition example_engine :: "CostOptimizedRouter \<Rightarrow> Model list \<Rightarrow> ReasoningEngine" where
  "example_engine r ms = \<lparr>router = r, active_model = None, available_models = ms,
     tokenizer = None, ollama_base_url = ''http://localhost:11434''\<rparr>"



definition usage_calls :: "(Model \<times> int \<times> real) list" where
  "usage_calls = [(gpt_x, 1000, 1 / 2), (llama_7b, 500, 0), (gpt_x, 2000, 1 / 4)]"

definition rounding_calls :: "(Model \<times> int \<times> real) list" where
  "rounding_calls =
     [(gpt_x, 1000, double_0_1), (gpt_y, 1000, double_0_2), (gpt_y, 1000, double_0_3)]"

lemmas example_defs = llama_7b_def gpt_x_def gpt_y_def groq_free_def example_task_def router_with_def
  fresh_router_def fresh_tracking_def example_world_def reply_ok_def example_engine_def

definition ok_world :: world where
  "ok_world = example_world ''2024-02'' reply_ok"

definition analysis_down_world :: world where
  "analysis_down_world =
     ok_world\<lparr>analyze_interaction :=
       (\<lambda>request response model t ok. Some (Exception ''performance.json is not writable''))\<rparr>"

definition local_engine :: ReasoningEngine where
  "local_engine = example_engine (fresh_router ''2024-02'') [llama_7b]"

definition cloud_engine :: ReasoningEngine where
  "cloud_engine = example_engine (fresh_router ''2024-02'') [groq_free, gpt_x]"

definition mixed_engine :: ReasoningEngine where
  "mixed_engine = example_engine (fresh_router ''2024-02'') [gpt_x, llama_7b]"

definition empty_engine :: ReasoningEngine where
  "empty_engine = example_engine (fresh_router ''2024-02'') []"

lemmas engine_defs = ok_world_def analysis_down_world_def local_engine_def cloud_engine_def mixed_engine_def
  empty_engine_def

lemmas dispatch_defs = process_task_def primary_attempt_def process_with_model_def
  process_with_ollama_def process_with_free_api_def process_with_premium_api_def
  get_fallback_model_def route_task_def select_best_model_def sort_reverse_def
  local_models_of_def free_api_models_of_def premium_models_of_def remaining_budget_def
  is_free_def

section \<open>Properties\<close>

subsection \<open>Rounding to a double\<close>

lemma round_half_even_of_int [simp]: "round_half_even (of_int i) = i"
  by (simp add: round_half_even_def)

lemma round_half_even_nonneg: "0 \<le> y \<Longrightarrow> 0 \<le> round_half_even y"
  by (auto simp: round_half_even_def Let_def)

lemma round_double_zero [simp]: "round_double 0 = 0"
  by (simp add: round_double_def)

lemma round_double_nonneg: "0 \<le> x \<Longrightarrow> 0 \<le> round_double x"
  by (auto simp: round_double_def Let_def sgn_real_def intro!: mult_nonneg_nonneg divide_nonneg_nonneg
      round_half_even_nonneg)

lemma round_double_ratio:
  assumes m: "0 < m" and k: "k \<le> subnormal_bits"
  shows "round_double (of_int m / 2 ^ k) =
           of_int (round_half_even (of_int m / 2 ^ nat (bitlen m - 53)))
             * 2 ^ nat (bitlen m - 53) / 2 ^ k"
proof -
  let ?x = "real_of_int m / 2 ^ k"
  let ?j = "subnormal_bits - k"
  let ?s = "nat (bitlen m - 53)"
  define N where "N = \<bar>?x\<bar> * 2 ^ subnormal_bits"
  define shift where "shift = nat (bitlen \<lfloor>N\<rfloor> - 53)"
  have pos: "0 < ?x" using m by simp
  then have sg: "sgn ?x = 1" by (simp only: sgn_pos)
  have p: "(2::real) ^ subnormal_bits = 2 ^ k * 2 ^ ?j"
    using k by (simp flip: power_add)
  have rd: "round_double ?x =
      of_int (round_half_even (N / 2 ^ shift)) * 2 ^ shift / 2 ^ subnormal_bits"
    unfolding round_double_def Let_def sg N_def shift_def by simp
  have "N = ?x * (2 ^ k * 2 ^ ?j)"
    using pos unfolding N_def p by (simp only: abs_of_pos)
  then have Nm: "N = of_int (m * 2 ^ ?j)"
    by simp
  have fl: "\<lfloor>N\<rfloor> = m * 2 ^ ?j"
    unfolding Nm by (rule floor_of_int)
  have sh: "shift = nat (bitlen m + int ?j - 53)"
    unfolding shift_def fl using m by simp
  show ?thesis
  proof (cases "53 \<le> bitlen m")
    case True
    then have sh': "shift = ?s + ?j"
      unfolding sh by (simp add: nat_add_distrib)
    have q: "N / 2 ^ shift = of_int m / 2 ^ ?s"
      unfolding Nm sh' by (simp add: power_add)
    have "round_double ?x =
        of_int (round_half_even (of_int m / 2 ^ ?s)) * (2 ^ ?s * 2 ^ ?j) / (2 ^ k * 2 ^ ?j)"
      unfolding rd q p unfolding sh' by (simp only: power_add)
    then show ?thesis by simp
  next
    case False
    then have s0: "?s = 0" by simp
    from False have "shift \<le> ?j" unfolding sh by simp
    then obtain d where d: "?j = shift + d"
      using le_Suc_ex by blast
    have q: "N / 2 ^ shift = of_int (m * 2 ^ d)"
      unfolding Nm by (subst d) (simp add: power_add)
    have "round_double ?x = of_int (m * 2 ^ d) * 2 ^ shift / (2 ^ k * 2 ^ (shift + d))"
      unfolding rd q p round_half_even_of_int by (subst d) (rule refl)
    then have "round_double ?x = of_int m / 2 ^ k"
      by (simp add: power_add)
    then show ?thesis using s0 by simp
  qed
qed

lemma bitlen_eqI:
  assumes "2 ^ b \<le> m" and "m < 2 ^ Suc b"
  shows "bitlen m = int (Suc b)"
proof -
  from assms have pos: "0 < m"
    by (smt (verit) zero_less_power)
  have "bitlen m \<le> int (Suc b)"
    using assms(2) pos by (simp add: bitlen_le_iff_power nat_add_distrib)
  moreover have "int (Suc b) \<le> bitlen m"
    using assms(1) pos by (simp add: bitlen_ge_iff_power nat_add_distrib)
  ultimately show ?thesis by simp
qed

lemma round_double_exact:
  assumes "0 < m" "m < 2 ^ 53" "k \<le> subnormal_bits"
  shows "round_double (of_int m / 2 ^ k) = of_int m / 2 ^ k"
proof -
  have "bitlen m \<le> 53"
    using assms by (simp add: bitlen_le_iff_power)
  then have "nat (bitlen m - 53) = 0" by simp
  with round_double_ratio [OF assms(1,3)] show ?thesis by simp
qed

lemma fadd_exact:
  assumes "x + y = of_int m / 2 ^ k" "0 < m" "m < 2 ^ 53" "k \<le> subnormal_bits"
  shows "fadd x y = x + y"
  unfolding fadd_def assms(1) using assms(2-4) by (rule round_double_exact)

lemma fsub_exact:
  assumes "x - y = of_int m / 2 ^ k" "0 < m" "m < 2 ^ 53" "k \<le> subnormal_bits"
  shows "fsub x y = x - y"
  unfolding fsub_def assms(1) using assms(2-4) by (rule round_double_exact)

lemma fadd_nonneg: "0 \<le> x \<Longrightarrow> 0 \<le> y \<Longrightarrow> 0 \<le> fadd x y"
  by (simp add: fadd_def round_double_nonneg)

lemma foldl_fadd_nonneg: "0 \<le> a \<Longrightarrow> \<forall>c \<in> set cs. 0 \<le> c \<Longrightarrow> 0 \<le> foldl fadd a cs"
  by (induction cs arbitrary: a) (simp_all add: fadd_nonneg)

lemma float_examples:
  "fsub 10 0 = 10" "fsub 10 (17 / 2) = 3 / 2" "fsub 10 10 = 0" "fsub 10 (15 / 2) = 5 / 2"
  "fadd (15 / 2) (1 / 4) = 31 / 4" "fadd 0 0 = 0" "fadd 0 (1 / 2) = 1 / 2"
  "fadd (1 / 2) 0 = 1 / 2" "fadd (1 / 2) (1 / 4) = 3 / 4" "fsub 10 (3 / 4) = 37 / 4"
  using fsub_exact [of 10 0 10 0] fsub_exact [of 10 "17 / 2" 3 1] fsub_exact [of 10 "15 / 2" 5 1]
    fadd_exact [of "15 / 2" "1 / 4" 31 2] fadd_exact [of 0 "1 / 2" 1 1]
    fadd_exact [of "1 / 2" 0 1 1] fadd_exact [of "1 / 2" "1 / 4" 3 2]
    fsub_exact [of 10 "3 / 4" 37 2]
  by (simp_all add: subnormal_bits_def fadd_def fsub_def)

lemma rounding_examples:
  "fadd 0 double_0_1 = double_0_1"
  "fadd double_0_1 double_0_2 = double_0_30000000000000004"
  "fadd double_0_30000000000000004 double_0_3 = double_0_6000000000000001"
  "fadd 0 double_0_2 = double_0_2"
  "fadd double_0_2 double_0_3 = 1 / 2"
  "fadd double_0_1 (1 / 2) = double_0_6"
proof -
  show "fadd 0 double_0_1 = double_0_1"
    using fadd_exact [of 0 double_0_1 3602879701896397 55]
    by (simp add: double_0_1_def subnormal_bits_def)
  show "fadd 0 double_0_2 = double_0_2"
    using fadd_exact [of 0 double_0_2 3602879701896397 54]
    by (simp add: double_0_2_def subnormal_bits_def)
  show "fadd double_0_2 double_0_3 = 1 / 2"
    using fadd_exact [of double_0_2 double_0_3 1 1]
    by (simp add: double_0_2_def double_0_3_def subnormal_bits_def)
  have b54: "bitlen 10808639105689191 = int (Suc 53)"
    by (rule bitlen_eqI) simp_all
  have b55: "bitlen 21617278211378381 = int (Suc 54)"
    by (rule bitlen_eqI) simp_all
  have s1: "double_0_1 + double_0_2 = of_int 10808639105689191 / 2 ^ 55"
    by (simp add: double_0_1_def double_0_2_def)
  show "fadd double_0_1 double_0_2 = double_0_30000000000000004"
    unfolding fadd_def s1
    by (subst round_double_ratio)
      (simp_all add: b54 round_half_even_def subnormal_bits_def double_0_30000000000000004_def)
  have s2: "double_0_30000000000000004 + double_0_3 = of_int 10808639105689191 / 2 ^ 54"
    by (simp add: double_0_30000000000000004_def double_0_3_def)
  show "fadd double_0_30000000000000004 double_0_3 = double_0_6000000000000001"
    unfolding fadd_def s2
    by (subst round_double_ratio)
      (simp_all add: b54 round_half_even_def subnormal_bits_def double_0_6000000000000001_def)
  have s3: "double_0_1 + 1 / 2 = of_int 21617278211378381 / 2 ^ 55"
    by (simp add: double_0_1_def)
  show "fadd double_0_1 (1 / 2) = double_0_6"
    unfolding fadd_def s3
    by (subst round_double_ratio)
      (simp_all add: b55 round_half_even_def subnormal_bits_def double_0_6_def)
qed

subsection \<open>Selecting among candidates\<close>

lemma set_sort_reverse: "set (sort_reverse key xs) = set xs"
  by (simp add: sort_reverse_def)

lemma sort_reverse_Nil_iff: "sort_reverse key xs = [] \<longleftrightarrow> xs = []"
  by (metis set_sort_reverse set_empty)

lemma select_best_model_mem:
  assumes "select_best_model models task = Inr m"
  shows "m \<in> set models"
proof -
  let ?code = "filter (\<lambda>m. ''code'' \<in> set (capabilities m)) models"
  let ?ms = "if requires_code_gen task \<and> ?code \<noteq> [] then ?code else models"
  from assms have ne: "models \<noteq> []"
    by (auto simp: select_best_model_def)
  from assms ne obtain rest where
    "sort_reverse (\<lambda>m. (quality_score m, speed_score m)) ?ms = m # rest"
    by (auto simp: select_best_model_def Let_def split: list.splits if_splits)
  then have "m \<in> set (sort_reverse (\<lambda>m. (quality_score m, speed_score m)) ?ms)"
    by simp
  then have "m \<in> set ?ms"
    by (simp only: set_sort_reverse)
  then show ?thesis
    by (auto split: if_splits)
qed

lemma select_best_model_ok:
  assumes "models \<noteq> []"
  shows "\<exists>m. select_best_model models task = Inr m"
proof -
  let ?code = "filter (\<lambda>m. ''code'' \<in> set (capabilities m)) models"
  let ?ms = "if requires_code_gen task \<and> ?code \<noteq> [] then ?code else models"
  have "?ms \<noteq> []" using assms by simp
  then have "sort_reverse (\<lambda>m. (quality_score m, speed_score m)) ?ms \<noteq> []"
    by (simp only: sort_reverse_Nil_iff not_False_eq_True)
  then obtain m rest where
    "sort_reverse (\<lambda>m. (quality_score m, speed_score m)) ?ms = m # rest"
    by (cases "sort_reverse (\<lambda>m. (quality_score m, speed_score m)) ?ms") auto
  then show ?thesis using assms
    by (simp add: select_best_model_def Let_def)
qed

lemma select_best_model_fails_iff:
  "(\<exists>e. select_best_model models task = Inl e) \<longleftrightarrow> models = []"
proof
  assume "\<exists>e. select_best_model models task = Inl e"
  then obtain e where e: "select_best_model models task = Inl e" ..
  show "models = []"
  proof (rule ccontr)
    assume "models \<noteq> []"
    then obtain m where "select_best_model models task = Inr m"
      using select_best_model_ok by blast
    with e show False by simp
  qed
next
  assume "models = []"
  then show "\<exists>e. select_best_model models task = Inl e"
    by (simp add: select_best_model_def)
qed

subsection \<open>Classification\<close>

text \<open>
  Claim C7. \<open>_analyze_complexity\<close> is a total function of the length of the request
  and of the flag \<open>requires_code_gen\<close> alone: it returns \<open>SIMPLE\<close> iff the length is
  below 100 and the flag is off; otherwise \<open>MEDIUM\<close> iff the length is below 500 or the
  flag is on; otherwise \<open>COMPLEX\<close> iff the length is below 2000; otherwise \<open>CRITICAL\<close>.
\<close>

theorem analyze_complexity_policy:
  "(analyze_complexity task = SIMPLE \<longleftrightarrow>
      length (content task) < 100 \<and> \<not> requires_code_gen task) \<and>
   (analyze_complexity task = MEDIUM \<longleftrightarrow>
      \<not> (length (content task) < 100 \<and> \<not> requires_code_gen task) \<and>
      (length (content task) < 500 \<or> requires_code_gen task)) \<and>
   (analyze_complexity task = COMPLEX \<longleftrightarrow>
      \<not> (length (content task) < 100 \<and> \<not> requires_code_gen task) \<and>
      \<not> (length (content task) < 500 \<or> requires_code_gen task) \<and>
      length (content task) < 2000) \<and>
   (analyze_complexity task = CRITICAL \<longleftrightarrow>
      \<not> (length (content task) < 100 \<and> \<not> requires_code_gen task) \<and>
      \<not> (length (content task) < 500 \<or> requires_code_gen task) \<and>
      \<not> length (content task) < 2000) \<and>
   (\<forall>task'. length (content task') = length (content task) \<and>
       requires_code_gen task' = requires_code_gen task \<longrightarrow>
       analyze_complexity task' = analyze_complexity task)"
  by (auto simp add: analyze_complexity_def Let_def)

subsection \<open>Routing\<close>

text \<open>
  Claim C5. With a remaining budget of exactly 1.5 and a registry that holds at least one
  premium model and at least one local model, a critical task is routed to a premium
  model, and a complex task is routed to a local model (so not to a premium one).
\<close>

theorem critical_overrides_threshold:
  assumes budget: "remaining_budget (cost_tracking self) = 1.5"
    and premium: "\<exists>m \<in> set available. type m = PREMIUM_API"
    and local: "\<exists>m \<in> set available. type m = LOCAL"
    and crit: "complexity critical_task = CRITICAL"
    and cplx: "complexity complex_task = COMPLEX"
  shows "(\<exists>m. route_task self critical_task available = Inr m \<and> type m = PREMIUM_API) \<and>
         (\<exists>m. route_task self complex_task available = Inr m \<and> type m = LOCAL)"
proof
  from premium have pne: "premium_models_of available \<noteq> []"
    by (auto simp: premium_models_of_def filter_empty_conv)
  from local have lne: "local_models_of available \<noteq> []"
    by (auto simp: local_models_of_def filter_empty_conv)
  from pne obtain p where p: "select_best_model (premium_models_of available) critical_task = Inr p"
    using select_best_model_ok by blast
  then have "p \<in> set (premium_models_of available)"
    by (rule select_best_model_mem)
  then have "type p = PREMIUM_API"
    by (simp add: premium_models_of_def)
  moreover have "route_task self critical_task available = Inr p"
    using budget crit pne p by (simp add: route_task_def Let_def)
  ultimately show "\<exists>m. route_task self critical_task available = Inr m \<and> type m = PREMIUM_API"
    by blast
  from lne obtain l where l: "select_best_model (local_models_of available) complex_task = Inr l"
    using select_best_model_ok by blast
  then have "l \<in> set (local_models_of available)"
    by (rule select_best_model_mem)
  then have "type l = LOCAL"
    by (simp add: local_models_of_def)
  moreover have "route_task self complex_task available = Inr l"
    using budget cplx lne l by (simp add: route_task_def Let_def)
  ultimately show "\<exists>m. route_task self complex_task available = Inr m \<and> type m = LOCAL"
    by blast
qed

text \<open>
  Claim C6. When the remaining budget is at most 0, the model that \<open>route_task\<close>
  returns is never a premium model, whatever the registry holds: for a simple or medium
  task it is a local model or a free model of type \<open>FREE_API\<close>, for a complex or
  critical task it is a local model.
\<close>

theorem budget_exhausted_no_premium:
  assumes budget: "remaining_budget (cost_tracking self) \<le> 0"
    and routed: "route_task self task available = Inr m"
  shows "m \<in> set available \<and> type m \<noteq> PREMIUM_API \<and>
         (complexity task \<in> {SIMPLE, MEDIUM} \<longrightarrow>
            type m = LOCAL \<or> (type m = FREE_API \<and> is_free m)) \<and>
         (complexity task \<in> {COMPLEX, CRITICAL} \<longrightarrow> type m = LOCAL)"
proof (cases "complexity task \<in> {SIMPLE, MEDIUM}")
  case True
  with budget routed have
    "select_best_model (local_models_of available @ free_api_models_of available) task = Inr m"
    by (simp add: route_task_def Let_def)
  then have "m \<in> set (local_models_of available @ free_api_models_of available)"
    by (rule select_best_model_mem)
  with True show ?thesis
    by (auto simp: local_models_of_def free_api_models_of_def)
next
  case False
  with budget routed have "select_best_model (local_models_of available) task = Inr m"
    by (simp add: route_task_def Let_def)
  then have "m \<in> set (local_models_of available)"
    by (rule select_best_model_mem)
  with False show ?thesis
    by (auto simp: local_models_of_def)
qed

text \<open>
  Claim C2, as the code has it. \<open>route_task\<close> raises exactly when the pools that the
  budget gates leave reachable are all empty. With no budget left: no local and no free
  model for a simple or medium task, no local model for a complex or critical task. With
  budget left: no local and no free model, and for a medium, complex or critical task the
  premium gate (budget above 2.0, 5.0 or 1.0 and a premium model) is closed. A simple task
  never reaches the premium pool.
\<close>

theorem route_task_fails_iff:
  "(\<exists>e. route_task self task available = Inl e) \<longleftrightarrow>
     (let remaining = remaining_budget (cost_tracking self);
          no_local = (local_models_of available = []);
          no_free = (free_api_models_of available = []);
          no_premium = (premium_models_of available = [])
      in if remaining \<le> 0 then
           (if complexity task \<in> {SIMPLE, MEDIUM} then no_local \<and> no_free else no_local)
         else
           no_local \<and> no_free \<and>
           (case complexity task of
              SIMPLE \<Rightarrow> True
            | MEDIUM \<Rightarrow> \<not> (remaining > 2.0 \<and> \<not> no_premium)
            | COMPLEX \<Rightarrow> \<not> (remaining > 5.0 \<and> \<not> no_premium)
            | CRITICAL \<Rightarrow> \<not> (remaining > 1.0 \<and> \<not> no_premium)))"
proof (cases "complexity task")
  case SIMPLE
  then show ?thesis
    by (simp add: route_task_def Let_def select_best_model_fails_iff)
next
  case MEDIUM
  then show ?thesis
    by (auto simp add: route_task_def Let_def select_best_model_fails_iff filter_empty_conv)
next
  case COMPLEX
  then show ?thesis
    by (simp add: route_task_def Let_def select_best_model_fails_iff)
next
  case CRITICAL
  then show ?thesis
    by (simp add: route_task_def Let_def select_best_model_fails_iff)
qed

subsection \<open>What a recorded usage does to the period\<close>

lemma track_usage_step:
  assumes keys: "same_keys (cost_tracking self)"
  shows "\<exists>self' w'. track_usage self model tokens c w = (None, self', w') \<and>
           same_keys (cost_tracking self') \<and>
           total_cost (cost_tracking self') = fadd (total_cost (cost_tracking self)) c \<and>
           (\<forall>k. map_of (cost_by_model (cost_tracking self')) k =
              (if k = name model
               then Some (fadd (case map_of (cost_by_model (cost_tracking self)) k of
                                  None \<Rightarrow> 0 | Some v \<Rightarrow> v) c)
               else map_of (cost_by_model (cost_tracking self)) k)) \<and>
           budget_limit (cost_tracking self') = budget_limit (cost_tracking self) \<and>
           month (cost_tracking self') = month (cost_tracking self)"
proof (cases "map_of (cost_by_model (cost_tracking self)) (name model)")
  case None
  from keys have "map_of (cost_by_model (cost_tracking self)) (name model) = None \<longleftrightarrow>
      map_of (tokens_by_model (cost_tracking self)) (name model) = None"
    unfolding same_keys_def by (rule spec)
  with None have tnone: "map_of (tokens_by_model (cost_tracking self)) (name model) = None"
    by simp
  from keys have keys': "map_of (tokens_by_model (cost_tracking self)) k = None \<longleftrightarrow>
      map_of (cost_by_model (cost_tracking self)) k = None" for k
    unfolding same_keys_def by simp
  show ?thesis
    using None tnone
    by (simp add: track_usage_def Let_def update_conv same_keys_def keys')
next
  case (Some spent)
  from keys have "map_of (cost_by_model (cost_tracking self)) (name model) = None \<longleftrightarrow>
      map_of (tokens_by_model (cost_tracking self)) (name model) = None"
    unfolding same_keys_def by (rule spec)
  with Some have "map_of (tokens_by_model (cost_tracking self)) (name model) \<noteq> None"
    by simp
  then obtain used where
    tsome: "map_of (tokens_by_model (cost_tracking self)) (name model) = Some used"
    by blast
  from keys have keys': "map_of (tokens_by_model (cost_tracking self)) k = None \<longleftrightarrow>
      map_of (cost_by_model (cost_tracking self)) k = None" for k
    unfolding same_keys_def by simp
  show ?thesis
    using Some tsome
    by (simp add: track_usage_def Let_def update_conv same_keys_def keys')
qed

lemma track_all_folds:
  assumes "same_keys (cost_tracking self)"
  shows "\<exists>self' w'. track_all self w calls = (None, self', w') \<and>
           same_keys (cost_tracking self') \<and>
           total_cost (cost_tracking self') =
             foldl fadd (total_cost (cost_tracking self)) (map (\<lambda>(m, t, c). c) calls) \<and>
           (\<forall>k. map_of (cost_by_model (cost_tracking self')) k =
              (case map_of (cost_by_model (cost_tracking self)) k of
                 None \<Rightarrow> if model_costs k calls = [] then None
                         else Some (foldl fadd 0 (model_costs k calls))
               | Some v \<Rightarrow> Some (foldl fadd v (model_costs k calls)))) \<and>
           budget_limit (cost_tracking self') = budget_limit (cost_tracking self) \<and>
           month (cost_tracking self') = month (cost_tracking self)"
  using assms
proof (induction calls arbitrary: self w)
  case Nil
  then show ?case by (simp add: model_costs_def split: option.splits)
next
  case (Cons call calls)
  obtain model tokens c where call: "call = (model, tokens, c)"
    by (cases call) auto
  from track_usage_step [OF Cons.prems, of model tokens c w]
  obtain s1 w1 where step: "track_usage self model tokens c w = (None, s1, w1)"
    and k1: "same_keys (cost_tracking s1)"
    and t1: "total_cost (cost_tracking s1) = fadd (total_cost (cost_tracking self)) c"
    and c1: "\<And>k. map_of (cost_by_model (cost_tracking s1)) k =
              (if k = name model
               then Some (fadd (case map_of (cost_by_model (cost_tracking self)) k of
                                  None \<Rightarrow> 0 | Some v \<Rightarrow> v) c)
               else map_of (cost_by_model (cost_tracking self)) k)"
    and l1: "budget_limit (cost_tracking s1) = budget_limit (cost_tracking self)"
    and m1: "month (cost_tracking s1) = month (cost_tracking self)"
    by blast
  from Cons.IH [OF k1, of w1]
  obtain s2 w2 where rest: "track_all s1 w1 calls = (None, s2, w2)"
    and k2: "same_keys (cost_tracking s2)"
    and t2: "total_cost (cost_tracking s2) =
               foldl fadd (total_cost (cost_tracking s1)) (map (\<lambda>(m, t, c). c) calls)"
    and c2: "\<And>k. map_of (cost_by_model (cost_tracking s2)) k =
              (case map_of (cost_by_model (cost_tracking s1)) k of
                 None \<Rightarrow> if model_costs k calls = [] then None
                         else Some (foldl fadd 0 (model_costs k calls))
               | Some v \<Rightarrow> Some (foldl fadd v (model_costs k calls)))"
    and l2: "budget_limit (cost_tracking s2) = budget_limit (cost_tracking s1)"
    and m2: "month (cost_tracking s2) = month (cost_tracking s1)"
    by blast
  have run: "track_all self w (call # calls) = (None, s2, w2)"
    using call step rest by simp
  have maps: "map_of (cost_by_model (cost_tracking s2)) k =
      (case map_of (cost_by_model (cost_tracking self)) k of
         None \<Rightarrow> if model_costs k (call # calls) = [] then None
                 else Some (foldl fadd 0 (model_costs k (call # calls)))
       | Some v \<Rightarrow> Some (foldl fadd v (model_costs k (call # calls))))" for k
  proof (cases "k = name model")
    case True
    then have "model_costs k (call # calls) = c # model_costs k calls"
      by (simp add: model_costs_def call)
    with True show ?thesis
      unfolding c2 [of k] c1 [of k]
      by (simp split: option.splits)
  next
    case False
    then have "model_costs k (call # calls) = model_costs k calls"
      by (simp add: model_costs_def call)
    with False show ?thesis
      unfolding c2 [of k] c1 [of k]
      by (simp split: option.splits)
  qed
  show ?case
    using run k2 t1 t2 l1 l2 m1 m2 maps call by simp
qed

subsection \<open>Recording usage\<close>

text \<open>
  Claim C8, as the code has it. Starting from a zeroed period, after each call of a
  sequence of \<open>track_usage\<close> calls with non-negative costs (the first \<open>n\<close> calls, for
  every \<open>n\<close>), no call has raised; \<open>total_cost\<close> is the floating-point sum of the
  costs recorded so far, taken in order, and is not negative; the entry of each model in
  \<open>cost_by_model\<close> is the floating-point sum, in order, of the costs recorded for that
  model, and a model without a recorded call has no entry; the remaining budget is
  \<open>max 0 (budget_limit - total_cost)\<close>, hence not negative. (Whether \<open>total_cost\<close>
  equals the sum of the entries depends on the rounding of these additions.)
\<close>

theorem track_usage_running_sums:
  assumes zeroed: "total_cost (cost_tracking self) = 0"
      "cost_by_model (cost_tracking self) = []" "tokens_by_model (cost_tracking self) = []"
    and nonneg: "\<forall>(m, t, c) \<in> set calls. 0 \<le> c"
    and n: "n \<le> length calls"
  shows "\<exists>self' w'. track_all self w (take n calls) = (None, self', w') \<and>
           total_cost (cost_tracking self') =
             foldl fadd 0 (map (\<lambda>(m, t, c). c) (take n calls)) \<and>
           (\<forall>k. map_of (cost_by_model (cost_tracking self')) k =
              (if model_costs k (take n calls) = [] then None
               else Some (foldl fadd 0 (model_costs k (take n calls))))) \<and>
           0 \<le> total_cost (cost_tracking self') \<and>
           remaining_budget (cost_tracking self') =
             max 0 (fsub (budget_limit (cost_tracking self)) (total_cost (cost_tracking self'))) \<and>
           0 \<le> remaining_budget (cost_tracking self')"
proof -
  have k: "same_keys (cost_tracking self)"
    using zeroed by (simp add: same_keys_def)
  from track_all_folds [OF k, of w "take n calls"]
  obtain s w' where run: "track_all self w (take n calls) = (None, s, w')"
    and tot: "total_cost (cost_tracking s) =
                foldl fadd (total_cost (cost_tracking self)) (map (\<lambda>(m, t, c). c) (take n calls))"
    and maps: "\<And>k. map_of (cost_by_model (cost_tracking s)) k =
              (case map_of (cost_by_model (cost_tracking self)) k of
                 None \<Rightarrow> if model_costs k (take n calls) = [] then None
                         else Some (foldl fadd 0 (model_costs k (take n calls)))
               | Some v \<Rightarrow> Some (foldl fadd v (model_costs k (take n calls))))"
    and lim: "budget_limit (cost_tracking s) = budget_limit (cost_tracking self)"
    by blast
  have "\<forall>c \<in> set (map (\<lambda>(m, t, c). c) (take n calls)). 0 \<le> c"
    using nonneg by (auto dest: in_set_takeD)
  then have pos: "0 \<le> foldl fadd 0 (map (\<lambda>(m, t, c). c) (take n calls))"
    by (intro foldl_fadd_nonneg) simp_all
  show ?thesis
    using run tot maps lim pos zeroed
    by (simp add: remaining_budget_def)
qed

subsection \<open>Reading back what was saved\<close>

lemma as_dict_floats: "as_dict as_number (map (\<lambda>(k, v). (k, JFloat v)) xs) = Some xs"
  by (induction xs) (auto simp: as_number_def)

lemma as_dict_ints: "as_dict as_int (map (\<lambda>(k, v). (k, JInt v)) xs) = Some xs"
  by (induction xs) (auto simp: as_int_def)

text \<open>
  Claim C9. Saving a period and constructing a router from the saved file in the month
  of that period loads a period equal to the saved one in every field.
\<close>

theorem save_then_load_is_identity:
  assumes same_month: "now_month w = month (cost_tracking self)"
  shows "router_init limit (save_cost_tracking self w) =
           Inr \<lparr>monthly_limit = limit, current_month = now_month w,
                cost_tracking = cost_tracking self\<rparr>"
  using same_month
  by (simp add: router_init_def load_cost_tracking_def save_cost_tracking_def
      dump_cost_tracking_def CostTracking_kwargs_def CostTracking_fields_def
      as_string_def as_number_def as_object_def as_dict_floats as_dict_ints Let_def)


subsection \<open>The first attempt\<close>

lemma primary_attempt_fails:
  "process_with_model w self task m = Inl e \<Longrightarrow> primary_attempt w self task m = Inl e"
  by (simp add: primary_attempt_def)

subsection \<open>Dispatch\<close>

text \<open>
  Claim C1, as the code has it. \<open>process_task\<close> never calls \<open>track_usage\<close>: whatever
  the outcome (a model answered, every attempt failed, or the router raised), the engine
  with its router, the ledger of the router and the tracking file are after the call
  what they were before it.
\<close>

theorem process_task_leaves_ledger:
  "snd (process_task w self task) = (self, w) \<and>
   cost_tracking (router (fst (snd (process_task w self task)))) = cost_tracking (router self) \<and>
   tracking_file (snd (snd (process_task w self task))) = tracking_file w"
  by (simp add: process_task_def split: sum.splits option.splits)


text \<open>
  Claim C10. The adapter of a \<open>FREE_API\<close> model always raises
  \<open>NotImplementedError\<close>; the adapter of a \<open>PREMIUM_API\<close> model raises the missing
  key exception or \<open>NotImplementedError\<close>; so a model that answers is a local one; and
  when the router selects a model that is not local, \<open>process_task\<close> continues with
  the fallback: its result is that of the fallback branch.
\<close>

theorem only_local_models_answer:
  "(type model = FREE_API \<longrightarrow>
      process_with_model w self task model =
        Inl (NotImplementedError ''Free API integration pending'')) \<and>
   (type model = PREMIUM_API \<longrightarrow>
      process_with_model w self task model =
        Inl (Exception (''No API key found for '' @ name model)) \<or>
      process_with_model w self task model =
        Inl (NotImplementedError ''Premium API integration pending'')) \<and>
   (\<forall>response. process_with_model w self task model = Inr response \<longrightarrow> type model = LOCAL) \<and>
   (route_task (router self) task (available_models self) = Inr model \<and> type model \<noteq> LOCAL \<longrightarrow>
      process_task w self task =
        (case get_fallback_model self model of
           None \<Rightarrow> (Inr (error_response (elapsed w)), self, w)
         | Some fallback_model \<Rightarrow>
             (case process_with_model w self task fallback_model of
                Inr response \<Rightarrow>
                  (Inr (response\<lparr>fallback_used := True, processing_time := elapsed w\<rparr>), self, w)
              | Inl e2 \<Rightarrow> (Inr (error_response (elapsed w)), self, w))))"
proof -
  have free: "type model = FREE_API \<Longrightarrow>
      process_with_model w self task model =
        Inl (NotImplementedError ''Free API integration pending'')"
    by (simp add: process_with_model_def process_with_free_api_def)
  have premium: "type model = PREMIUM_API \<Longrightarrow>
      process_with_model w self task model =
        Inl (Exception (''No API key found for '' @ name model)) \<or>
      process_with_model w self task model =
        Inl (NotImplementedError ''Premium API integration pending'')"
    by (simp add: process_with_model_def process_with_premium_api_def split: option.splits)
  have nonlocal: "\<exists>e. process_with_model w self task model = Inl e" if "type model \<noteq> LOCAL"
    using that free premium by (cases "type model") auto
  have local: "type model = LOCAL" if "process_with_model w self task model = Inr response"
    for response
    using that nonlocal by (cases "type model = LOCAL") auto
  have fallback: "process_task w self task =
        (case get_fallback_model self model of
           None \<Rightarrow> (Inr (error_response (elapsed w)), self, w)
         | Some fallback_model \<Rightarrow>
             (case process_with_model w self task fallback_model of
                Inr response \<Rightarrow>
                  (Inr (response\<lparr>fallback_used := True, processing_time := elapsed w\<rparr>), self, w)
              | Inl e2 \<Rightarrow> (Inr (error_response (elapsed w)), self, w)))"
    if "route_task (router self) task (available_models self) = Inr model" "type model \<noteq> LOCAL"
  proof -
    from nonlocal [OF that(2)] obtain e where "process_with_model w self task model = Inl e" ..
    then have "primary_attempt w self task model = Inl e"
      by (rule primary_attempt_fails)
    with that(1) show ?thesis
      by (simp add: process_task_def split: option.splits sum.splits)
  qed
  from free premium local fallback show ?thesis by blast
qed

section \<open>The properties on concrete inputs\<close>

text \<open>
  Each property above that has a hypothesis is applied to one of the running examples, and
  each statement of the specification that the code does not satisfy is evaluated on an
  input where it fails.
\<close>

theorem analyze_complexity_policy_witness:
  "length (content (example_task CRITICAL)) = length (content (example_task SIMPLE)) \<and>
   requires_code_gen (example_task CRITICAL) = requires_code_gen (example_task SIMPLE) \<and>
   analyze_complexity (example_task SIMPLE) = SIMPLE \<and>
   analyze_complexity (example_task CRITICAL) = analyze_complexity (example_task SIMPLE)"
proof -
  have same: "length (content (example_task CRITICAL)) = length (content (example_task SIMPLE)) \<and>
      requires_code_gen (example_task CRITICAL) = requires_code_gen (example_task SIMPLE)"
    by (simp add: example_task_def)
  have short: "length (content (example_task SIMPLE)) < 100 \<and>
      \<not> requires_code_gen (example_task SIMPLE)"
    by (simp add: example_task_def)
  from analyze_complexity_policy [of "example_task SIMPLE"] same short
  have "analyze_complexity (example_task SIMPLE) = SIMPLE \<and>
        analyze_complexity (example_task CRITICAL) = analyze_complexity (example_task SIMPLE)"
    by blast
  with same show ?thesis by blast
qed

theorem critical_overrides_threshold_witness:
  "remaining_budget (cost_tracking (router_with ''2024-02'' 8.5)) = 1.5 \<and>
   (\<exists>m. route_task (router_with ''2024-02'' 8.5) (example_task CRITICAL) [llama_7b, gpt_x] = Inr m
        \<and> type m = PREMIUM_API) \<and>
   (\<exists>m. route_task (router_with ''2024-02'' 8.5) (example_task COMPLEX) [llama_7b, gpt_x] = Inr m
        \<and> type m = LOCAL)"
proof -
  have b: "remaining_budget (cost_tracking (router_with ''2024-02'' 8.5)) = 1.5"
    by (simp add: router_with_def remaining_budget_def float_examples)
  have p: "\<exists>m \<in> set [llama_7b, gpt_x]. type m = PREMIUM_API"
    by (simp add: gpt_x_def)
  have l: "\<exists>m \<in> set [llama_7b, gpt_x]. type m = LOCAL"
    by (simp add: llama_7b_def)
  have c1: "complexity (example_task CRITICAL) = CRITICAL"
    and c2: "complexity (example_task COMPLEX) = COMPLEX"
    by (simp_all add: example_task_def)
  from critical_overrides_threshold [OF b p l c1 c2] b show ?thesis by blast
qed

lemma route_exhausted_complex:
  "route_task (router_with ''2024-02'' 10) (example_task COMPLEX) [llama_7b, gpt_x] = Inr llama_7b"
  by (simp add: route_task_def select_best_model_def sort_reverse_def local_models_of_def
      free_api_models_of_def premium_models_of_def remaining_budget_def Let_def example_defs
      float_examples)

theorem budget_exhausted_no_premium_witness:
  "remaining_budget (cost_tracking (router_with ''2024-02'' 10)) \<le> 0 \<and>
   route_task (router_with ''2024-02'' 10) (example_task COMPLEX) [llama_7b, gpt_x] = Inr llama_7b \<and>
   gpt_x \<in> set [llama_7b, gpt_x] \<and> type gpt_x = PREMIUM_API \<and>
   type llama_7b \<noteq> PREMIUM_API \<and> type llama_7b = LOCAL"
proof -
  have b: "remaining_budget (cost_tracking (router_with ''2024-02'' 10)) \<le> 0"
    by (simp add: router_with_def remaining_budget_def float_examples)
  have c: "complexity (example_task COMPLEX) \<in> {COMPLEX, CRITICAL}"
    by (simp add: example_task_def)
  have g: "gpt_x \<in> set [llama_7b, gpt_x] \<and> type gpt_x = PREMIUM_API"
    by (simp add: gpt_x_def)
  from budget_exhausted_no_premium [OF b route_exhausted_complex] c
  have "type llama_7b \<noteq> PREMIUM_API \<and> type llama_7b = LOCAL"
    by blast
  with b g route_exhausted_complex show ?thesis by blast
qed

text \<open>
  The claim C2 as stated fails: with the budget exhausted, a complex task and a registry
  that holds a free model, the pool of free models (a fallback tier of complex tasks) is
  not empty, and \<open>route_task\<close> raises all the same.
\<close>

theorem route_task_free_model_counterexample:
  "remaining_budget (cost_tracking (router_with ''2024-02'' 10)) = 0 \<and>
   free_api_models_of [groq_free] = [groq_free] \<and>
   route_task (router_with ''2024-02'' 10) (example_task COMPLEX) [groq_free]
     = Inl (ValueError ''No models available'')"
  by (simp add: route_task_def select_best_model_def local_models_of_def
      free_api_models_of_def premium_models_of_def remaining_budget_def is_free_def Let_def
      example_defs float_examples)

theorem track_usage_running_sums_witness:
  "fst (track_all (fresh_router ''2024-02'') (example_world ''2024-02'' reply_ok) usage_calls) = None \<and>
   total_cost (cost_tracking (fst (snd
     (track_all (fresh_router ''2024-02'') (example_world ''2024-02'' reply_ok) usage_calls)))) = 3 / 4 \<and>
   map_of (cost_by_model (cost_tracking (fst (snd
     (track_all (fresh_router ''2024-02'') (example_world ''2024-02'' reply_ok) usage_calls)))))
     ''gpt-x'' = Some (3 / 4) \<and>
   map_of (cost_by_model (cost_tracking (fst (snd
     (track_all (fresh_router ''2024-02'') (example_world ''2024-02'' reply_ok) usage_calls)))))
     ''llama-7b'' = Some 0 \<and>
   map_of (cost_by_model (cost_tracking (fst (snd
     (track_all (fresh_router ''2024-02'') (example_world ''2024-02'' reply_ok) usage_calls)))))
     ''gpt-y'' = None \<and>
   remaining_budget (cost_tracking (fst (snd
     (track_all (fresh_router ''2024-02'') (example_world ''2024-02'' reply_ok) usage_calls)))) = 37 / 4"
proof -
  let ?r = "fresh_router ''2024-02''" and ?w = "example_world ''2024-02'' reply_ok"
  have z: "total_cost (cost_tracking ?r) = 0" "cost_by_model (cost_tracking ?r) = []"
    "tokens_by_model (cost_tracking ?r) = []"
    by (simp_all add: fresh_router_def fresh_tracking_def)
  have nn: "\<forall>(m, t, c) \<in> set usage_calls. 0 \<le> c"
    by (simp add: usage_calls_def)
  have n: "3 \<le> length usage_calls"
    by (simp add: usage_calls_def)
  have lim: "budget_limit (cost_tracking ?r) = 10"
    by (simp add: fresh_router_def fresh_tracking_def)
  have t: "take 3 usage_calls = usage_calls"
    by (simp add: usage_calls_def)
  have total: "foldl fadd 0 (map (\<lambda>(m, t, c). c) usage_calls) = 3 / 4"
    by (simp add: usage_calls_def float_examples)
  have gx: "model_costs ''gpt-x'' usage_calls = [1 / 2, 1 / 4]"
    and ll: "model_costs ''llama-7b'' usage_calls = [0]"
    and gy: "model_costs ''gpt-y'' usage_calls = []"
    by (simp_all add: usage_calls_def model_costs_def example_defs)
  from track_usage_running_sums [OF z nn n, of ?w]
  obtain self' w' where run: "track_all ?r ?w usage_calls = (None, self', w')"
    and tot: "total_cost (cost_tracking self') = 3 / 4"
    and maps: "\<forall>k. map_of (cost_by_model (cost_tracking self')) k =
        (if model_costs k usage_calls = [] then None
         else Some (foldl fadd 0 (model_costs k usage_calls)))"
    and rem: "remaining_budget (cost_tracking self') =
        max 0 (fsub 10 (total_cost (cost_tracking self')))"
    unfolding t total lim by blast
  from maps gx have m1: "map_of (cost_by_model (cost_tracking self')) ''gpt-x'' = Some (3 / 4)"
    by (simp add: float_examples)
  from maps ll have m2: "map_of (cost_by_model (cost_tracking self')) ''llama-7b'' = Some 0"
    by (simp add: float_examples)
  from maps gy have m3: "map_of (cost_by_model (cost_tracking self')) ''gpt-y'' = None"
    by simp
  from rem tot have "remaining_budget (cost_tracking self') = 37 / 4"
    by (simp add: float_examples)
  with run tot m1 m2 m3 show ?thesis by simp
qed

text \<open>
  The claim C8 as stated fails: three usages with the costs 0.1 (for one model), 0.2 and
  0.3 (for another one) leave \<open>total_cost = 0.6000000000000001\<close>, while the entries of
  \<open>cost_by_model\<close> are 0.1 and 0.5, whose sum is 0.6 as a sum of floats and is not
  \<open>total_cost\<close> as an exact sum either.
\<close>

lemma rounding_ledger:
  "fst (track_all (fresh_router ''2024-02'') (example_world ''2024-02'' reply_ok) rounding_calls) = None \<and>
   cost_tracking (fst (snd
     (track_all (fresh_router ''2024-02'') (example_world ''2024-02'' reply_ok) rounding_calls))) =
     \<lparr>month = ''2024-02'', total_cost = double_0_6000000000000001,
      cost_by_model = [(''gpt-x'', double_0_1), (''gpt-y'', 1 / 2)],
      tokens_by_model = [(''gpt-x'', 1000), (''gpt-y'', 2000)], budget_limit = 10\<rparr>"
  by (simp add: rounding_calls_def track_usage_def Let_def example_defs rounding_examples)

theorem track_usage_rounding_counterexample:
  "fst (track_all (fresh_router ''2024-02'') (example_world ''2024-02'' reply_ok) rounding_calls) = None \<and>
   total_cost (cost_tracking (fst (snd
     (track_all (fresh_router ''2024-02'') (example_world ''2024-02'' reply_ok) rounding_calls))))
     = double_0_6000000000000001 \<and>
   cost_by_model (cost_tracking (fst (snd
     (track_all (fresh_router ''2024-02'') (example_world ''2024-02'' reply_ok) rounding_calls))))
     = [(''gpt-x'', double_0_1), (''gpt-y'', 1 / 2)] \<and>
   foldl fadd 0 (map snd (cost_by_model (cost_tracking (fst (snd
     (track_all (fresh_router ''2024-02'') (example_world ''2024-02'' reply_ok) rounding_calls))))))
     = double_0_6 \<and>
   double_0_6 \<noteq> double_0_6000000000000001 \<and>
   sum_list (map snd (cost_by_model (cost_tracking (fst (snd
     (track_all (fresh_router ''2024-02'') (example_world ''2024-02'' reply_ok) rounding_calls))))))
     \<noteq> double_0_6000000000000001"
proof -
  have apart: "double_0_6 \<noteq> double_0_6000000000000001"
    by (simp add: double_0_6_def double_0_6000000000000001_def)
  have exact: "double_0_1 + 1 / 2 \<noteq> double_0_6000000000000001"
    by (simp add: double_0_1_def double_0_6000000000000001_def)
  from rounding_ledger apart exact show ?thesis
    by (simp add: rounding_examples)
qed

theorem save_then_load_is_identity_witness:
  "now_month (example_world ''2024-02'' reply_ok) = month (cost_tracking (router_with ''2024-02'' 8.5)) \<and>
   cost_by_model (cost_tracking (router_with ''2024-02'' 8.5)) = [(''gpt-x'', 8.5)] \<and>
   tokens_by_model (cost_tracking (router_with ''2024-02'' 8.5)) = [(''gpt-x'', 1000)] \<and>
   router_init 10 (save_cost_tracking (router_with ''2024-02'' 8.5) (example_world ''2024-02'' reply_ok))
     = Inr (router_with ''2024-02'' 8.5)"
proof -
  have m: "now_month (example_world ''2024-02'' reply_ok)
      = month (cost_tracking (router_with ''2024-02'' 8.5))"
    by (simp add: example_world_def router_with_def)
  have r: "\<lparr>monthly_limit = 10, current_month = now_month (example_world ''2024-02'' reply_ok),
       cost_tracking = cost_tracking (router_with ''2024-02'' 8.5)\<rparr> = router_with ''2024-02'' 8.5"
    by (simp add: example_world_def router_with_def)
  have maps: "cost_by_model (cost_tracking (router_with ''2024-02'' 8.5)) = [(''gpt-x'', 8.5)] \<and>
      tokens_by_model (cost_tracking (router_with ''2024-02'' 8.5)) = [(''gpt-x'', 1000)]"
    by (simp add: router_with_def)
  from save_then_load_is_identity [OF m, of 10] r
  have "router_init 10 (save_cost_tracking (router_with ''2024-02'' 8.5)
      (example_world ''2024-02'' reply_ok)) = Inr (router_with ''2024-02'' 8.5)"
    by simp
  with m maps show ?thesis by blast
qed



lemma local_dispatch:
  "process_task ok_world local_engine (example_task SIMPLE) =
     (Inr \<lparr>response_content = ''Done.'', actions = [], reasoning = [],
           model_used = ''llama-7b'', confidence = 0.9, fallback_used = False,
           tokens_used = count_tokens local_engine (build_prompt (example_task SIMPLE)),
           cost = 0, processing_time = 1\<rparr>,
      local_engine, ok_world)"
  by (simp add: dispatch_defs engine_defs example_defs float_examples Let_def)

text \<open>
  The claim C1 as stated fails: a dispatch that the local model answers successfully
  leaves the zeroed ledger and the missing tracking file as they were, while the one call
  of \<open>track_usage\<close> that the claim expects (for the answering model, with the tokens of
  the response and the cost \<open>tokens / 1000 * cost_per_1k_tokens\<close>) would have entered
  the model into the ledger.
\<close>

theorem dispatch_never_records_counterexample:
  "\<not> isl (fst (process_task ok_world local_engine (example_task SIMPLE))) \<and>
   success (projr (fst (process_task ok_world local_engine (example_task SIMPLE)))) \<and>
   model_used (projr (fst (process_task ok_world local_engine (example_task SIMPLE))))
     = ''llama-7b'' \<and>
   snd (process_task ok_world local_engine (example_task SIMPLE)) = (local_engine, ok_world) \<and>
   cost_by_model (cost_tracking (router local_engine)) = [] \<and>
   tokens_by_model (cost_tracking (router local_engine)) = [] \<and>
   tracking_file ok_world = Missing \<and>
   cost_by_model (cost_tracking (fst (snd (track_usage (router local_engine) llama_7b
       (tokens_used (projr (fst (process_task ok_world local_engine (example_task SIMPLE)))))
       (real_of_int (tokens_used
           (projr (fst (process_task ok_world local_engine (example_task SIMPLE))))) / 1000
          * cost_per_1k_tokens llama_7b)
       ok_world)))) = [(''llama-7b'', 0)]"
  unfolding local_dispatch
  by (simp add: success_def track_usage_def engine_defs example_defs float_examples Let_def)







lemma mixed_route:
  "route_task (router mixed_engine) (example_task CRITICAL) (available_models mixed_engine)
     = Inr gpt_x"
  by (simp add: dispatch_defs engine_defs example_defs float_examples Let_def)

lemma mixed_fallback: "get_fallback_model mixed_engine gpt_x = Some llama_7b"
  by (simp add: dispatch_defs engine_defs example_defs float_examples Let_def)

lemma mixed_local_answer:
  "process_with_model ok_world mixed_engine (example_task CRITICAL) llama_7b =
     Inr \<lparr>response_content = ''Done.'', actions = [], reasoning = [],
          model_used = ''llama-7b'', confidence = 0.9, fallback_used = False,
          tokens_used = count_tokens mixed_engine (build_prompt (example_task CRITICAL)),
          cost = 0, processing_time = 0\<rparr>"
  by (simp add: dispatch_defs engine_defs example_defs float_examples Let_def)

theorem only_local_models_answer_witness:
  "type gpt_x = PREMIUM_API \<and> type groq_free = FREE_API \<and> type llama_7b = LOCAL \<and>
   process_with_model ok_world mixed_engine (example_task CRITICAL) groq_free =
     Inl (NotImplementedError ''Free API integration pending'') \<and>
   isl (process_with_model ok_world mixed_engine (example_task CRITICAL) gpt_x) \<and>
   route_task (router mixed_engine) (example_task CRITICAL) (available_models mixed_engine)
     = Inr gpt_x \<and>
   process_task ok_world mixed_engine (example_task CRITICAL) =
     (Inr \<lparr>response_content = ''Done.'', actions = [], reasoning = [],
           model_used = ''llama-7b'', confidence = 0.9, fallback_used = True,
           tokens_used = count_tokens mixed_engine (build_prompt (example_task CRITICAL)),
           cost = 0, processing_time = elapsed ok_world\<rparr>,
      mixed_engine, ok_world)"
proof -
  have types: "type gpt_x = PREMIUM_API" "type groq_free = FREE_API" "type llama_7b = LOCAL"
    by (simp_all add: example_defs)
  from only_local_models_answer [of groq_free ok_world mixed_engine "example_task CRITICAL"]
    types(2)
  have free: "process_with_model ok_world mixed_engine (example_task CRITICAL) groq_free =
      Inl (NotImplementedError ''Free API integration pending'')"
    by blast
  have nonlocal: "type gpt_x \<noteq> LOCAL"
    using types(1) by simp
  note gpt = only_local_models_answer [of gpt_x ok_world mixed_engine "example_task CRITICAL"]
  from gpt types(1)
  have premium: "isl (process_with_model ok_world mixed_engine (example_task CRITICAL) gpt_x)"
    by (auto simp: isl_def)
  from gpt mixed_route nonlocal
  have "process_task ok_world mixed_engine (example_task CRITICAL) =
        (case get_fallback_model mixed_engine gpt_x of
           None \<Rightarrow> (Inr (error_response (elapsed ok_world)), mixed_engine, ok_world)
         | Some fallback_model \<Rightarrow>
             (case process_with_model ok_world mixed_engine (example_task CRITICAL)
                     fallback_model of
                Inr response \<Rightarrow>
                  (Inr (response\<lparr>fallback_used := True, processing_time := elapsed ok_world\<rparr>),
                   mixed_engine, ok_world)
              | Inl e2 \<Rightarrow> (Inr (error_response (elapsed ok_world)), mixed_engine, ok_world)))"
    by blast
  then have run: "process_task ok_world mixed_engine (example_task CRITICAL) =
     (Inr \<lparr>response_content = ''Done.'', actions = [], reasoning = [],
           model_used = ''llama-7b'', confidence = 0.9, fallback_used = True,
           tokens_used = count_tokens mixed_engine (build_prompt (example_task CRITICAL)),
           cost = 0, processing_time = elapsed ok_world\<rparr>,
      mixed_engine, ok_world)"
    by (simp add: mixed_fallback mixed_local_answer)
  from types free premium mixed_route run show ?thesis by blast
qed

end
